theory Spec2Isabelle
  imports Main "HOL-Library.AList" "HOL-Library.Word"
begin

section \<open>JavaScript values\<close>

text \<open>
  The mixin factory of db-mixin exists in two source files, \<^verbatim>\<open>src/db.mixin.js\<close> and
  \<^verbatim>\<open>src/unnamed/part_000\<close>. Their methods \<^verbatim>\<open>validateHas\<close>, \<^verbatim>\<open>encodeID\<close>,
  \<^verbatim>\<open>decodeID\<close> and the hook \<^verbatim>\<open>created\<close> are the same text; the adapter selection,
  the action table and the hook \<^verbatim>\<open>started\<close> differ and are embedded once per file.

  Values are \<open>undefined\<close>, \<open>null\<close>, booleans, numbers, strings, objects with their
  own properties in insertion order, and the built-in objects and functions of the
  host, which a program meets when it reads an inherited property; a built-in is
  held by its name. The program never computes with a number: it tests it for
  truthiness and prints it into a string, so a number is held as the text
  \<^verbatim>\<open>String(n)\<close> gives (\<^verbatim>\<open>0.5\<close>, \<^verbatim>\<open>42\<close>, \<^verbatim>\<open>NaN\<close>). Arrays are outside these values.
\<close>

datatype jsval =
    Undefined
  | Null
  | JBool bool
  | JNum string
  | JStr string
  | JObj "(string \<times> jsval) list"
  | Builtin string

type_synonym object = "(string \<times> jsval) list"

text \<open>\<^verbatim>\<open>if (v)\<close>, \<^verbatim>\<open>!v\<close>, \<^verbatim>\<open>a || b\<close>, \<^verbatim>\<open>a && b\<close> test this.\<close>

fun truthy :: "jsval \<Rightarrow> bool" where
  "truthy Undefined = False"
| "truthy Null = False"
| "truthy (JBool b) = b"
| "truthy (JNum n) = (n \<noteq> ''0'' \<and> n \<noteq> ''NaN'')"
| "truthy (JStr s) = (s \<noteq> [])"
| "truthy (JObj ps) = True"
| "truthy (Builtin n) = True"

text \<open>What a template literal \<^verbatim>\<open>`${v}`\<close> puts into the string.\<close>

fun to_string :: "jsval \<Rightarrow> string" where
  "to_string Undefined = ''undefined''"
| "to_string Null = ''null''"
| "to_string (JBool b) = (if b then ''true'' else ''false'')"
| "to_string (JNum n) = n"
| "to_string (JStr s) = s"
| "to_string (JObj ps) = ''[object Object]''"
| "to_string (Builtin n) =
     (if n = ''Object.prototype'' then ''[object Object]''
      else ''function '' @ n @ ''() { [native code] }'')"

text \<open>
  \<^verbatim>\<open>opts[k]\<close> for the keys the factories read from their options (\<^verbatim>\<open>nedb\<close>,
  \<^verbatim>\<open>collection\<close>, \<^verbatim>\<open>permissions\<close>, \<^verbatim>\<open>adapter\<close>), none of which names an inherited
  property: the own property, or \<open>undefined\<close> when there is none.
\<close>

definition read :: "object \<Rightarrow> string \<Rightarrow> jsval" where
  "read obj k = (case map_of obj k of None \<Rightarrow> Undefined | Some v \<Rightarrow> v)"

datatype errdata =
    DataObject object
  | DataList "object list"

datatype error =
    ReferenceError string
  | TypeError string
  | MoleculerClientError string int string errdata
  | Rejected jsval
  | Fatal string

section \<open>Objects, prototypes and property access\<close>

text \<open>
  \<^verbatim>\<open>validateHas\<close> reads and writes properties under a key its caller chooses, so
  property access is modelled with the prototype chain. What a chain holds is the
  host's business: \<open>lookup p k\<close> says what a search for \<open>k\<close> that starts at the
  prototype \<open>p\<close> finds: nothing, a data property with its value, or the accessor
  \<^verbatim>\<open>__proto__\<close> of \<^verbatim>\<open>Object.prototype\<close>, whose getter gives the prototype of the object
  it is read on and whose setter replaces that prototype.
\<close>

datatype inherited =
    NotFound
  | Data jsval
  | Accessor

text \<open>
  \<^verbatim>\<open>query\<close> and \<^verbatim>\<open>params\<close> are references to mutable objects, so the objects live in
  a store: \<open>heap\<close> gives the own properties of the object at an address and
  \<open>protos\<close> its prototype; the two references may be the same address. \<open>calls\<close>
  lists the lookups made through \<^verbatim>\<open>ctx.call\<close> so far. Objects are ordinary: extensible,
  with writable properties. A call that passes something other than an object for
  \<^verbatim>\<open>query\<close> or \<^verbatim>\<open>params\<close>, or a context without \<^verbatim>\<open>ctx.action\<close>, is outside the
  model.
\<close>

record world =
  heap :: "nat \<Rightarrow> object"
  protos :: "nat \<Rightarrow> jsval"
  lookup :: "jsval \<Rightarrow> string \<Rightarrow> inherited"
  calls :: "(string \<times> object) list"

text \<open>The value of a property found in the chain of an object whose prototype is \<open>p\<close>.\<close>

fun found :: "jsval \<Rightarrow> inherited \<Rightarrow> jsval" where
  "found p NotFound = Undefined"
| "found p (Data v) = v"
| "found p Accessor = p"

text \<open>\<^verbatim>\<open>obj[k]\<close> for the object at address \<open>a\<close>: the own property, else the chain.\<close>

definition member :: "world \<Rightarrow> nat \<Rightarrow> string \<Rightarrow> jsval" where
  "member w a k =
     (case map_of (heap w a) k of
        Some v \<Rightarrow> v
      | None \<Rightarrow> found (protos w a) (lookup w (protos w a) k))"

text \<open>What the setter of \<^verbatim>\<open>__proto__\<close> accepts as a new prototype: an object or \<open>null\<close>.\<close>

fun is_prototype :: "jsval \<Rightarrow> bool" where
  "is_prototype (JObj ps) = True"
| "is_prototype (Builtin n) = True"
| "is_prototype Null = True"
| "is_prototype v = False"

text \<open>
  \<^verbatim>\<open>obj[k] = v\<close> for the object at address \<open>a\<close>. An own property is overwritten in
  place. Otherwise the chain decides: the accessor's setter replaces the prototype
  when \<open>v\<close> is an object or \<open>null\<close> and does nothing for any other value; in every
  other case a new own property is added after the existing ones.
\<close>

definition assign :: "nat \<Rightarrow> string \<Rightarrow> jsval \<Rightarrow> world \<Rightarrow> world" where
  "assign a k v w =
     (case map_of (heap w a) k of
        Some old \<Rightarrow> w\<lparr>heap := (heap w)(a := AList.update k v (heap w a))\<rparr>
      | None \<Rightarrow>
          (case lookup w (protos w a) k of
             Accessor \<Rightarrow> if is_prototype v then w\<lparr>protos := (protos w)(a := v)\<rparr> else w
           | Data inherited_value \<Rightarrow> w\<lparr>heap := (heap w)(a := AList.update k v (heap w a))\<rparr>
           | NotFound \<Rightarrow> w\<lparr>heap := (heap w)(a := AList.update k v (heap w a))\<rparr>))"

text \<open>The prototype of a value that is not stored at an address.\<close>

fun proto_of :: "jsval \<Rightarrow> jsval" where
  "proto_of (JObj ps) = Builtin ''Object.prototype''"
| "proto_of (JStr s) = Builtin ''String.prototype''"
| "proto_of (JNum n) = Builtin ''Number.prototype''"
| "proto_of (JBool b) = Builtin ''Boolean.prototype''"
| "proto_of (Builtin n) =
     (if n = ''Object.prototype'' then Null else Builtin ''Function.prototype'')"
| "proto_of v = Null"

text \<open>
  \<^verbatim>\<open>schema[k]\<close> on the parameter schema of an action, an object literal: the own
  property, else the chain of \<^verbatim>\<open>Object.prototype\<close>.
\<close>

definition schema_entry :: "world \<Rightarrow> object \<Rightarrow> string \<Rightarrow> jsval" where
  "schema_entry w ps k =
     (case map_of ps k of
        Some v \<Rightarrow> v
      | None \<Rightarrow> found (Builtin ''Object.prototype'') (lookup w (Builtin ''Object.prototype'') k))"

text \<open>
  \<^verbatim>\<open>entry.optional\<close> on a truthy schema entry: of an object the own property, else
  the chain; a string, number or boolean has no own property of this name, so its
  chain decides.
\<close>

definition optional_of :: "world \<Rightarrow> jsval \<Rightarrow> jsval" where
  "optional_of w entry =
     (case (case entry of JObj ps \<Rightarrow> map_of ps ''optional'' | other \<Rightarrow> None) of
        Some v \<Rightarrow> v
      | None \<Rightarrow> found (proto_of entry) (lookup w (proto_of entry) ''optional''))"

section \<open>The permission delegation helper\<close>

text \<open>
  The identifiers bound where the body of \<^verbatim>\<open>validateHas\<close> runs: the module's
  \<^verbatim>\<open>const\<close> declarations (both files), the factory's parameter and locals, the
  method's parameters and its local \<^verbatim>\<open>res\<close>, and the host names the files use.
  Neither file declares or imports \<^verbatim>\<open>MoleculerClientError\<close>.
\<close>

definition bound_identifiers :: "string list" where
  "bound_identifiers =
     [''_'', ''crypto'', ''path'', ''mkdir'', ''DbService'', ''HashIds'', ''ObjectID'',
      ''TESTING'', ''FIELDS'', ''SCOPE'', ''DSCOPE'', ''ACTIONS'',
      ''opts'', ''hashids'', ''dir'', ''schema'',
      ''caller'', ''key'', ''query'', ''ctx'', ''params'', ''res'',
      ''require'', ''module'', ''process'', ''Date'']"

text \<open>
  \<^verbatim>\<open>new MoleculerClientError(message, code, type, data)\<close>: the constructor name is
  looked up first; an unbound name throws a ReferenceError before any argument is
  evaluated.
\<close>

definition new_MoleculerClientError :: "string \<Rightarrow> int \<Rightarrow> string \<Rightarrow> errdata \<Rightarrow> error" where
  "new_MoleculerClientError message code type data =
     (if ''MoleculerClientError'' \<in> set bound_identifiers
      then MoleculerClientError message code type data
      else ReferenceError ''MoleculerClientError is not defined'')"

text \<open>
  The execution context: \<^verbatim>\<open>ctx.call(action, payload)\<close> resolves to the callee's answer
  or rejects; \<^verbatim>\<open>ctx.action.params\<close> is the parameter schema of the running action,
  \<open>None\<close> when the action declares none (the property is \<open>undefined\<close>).
\<close>

record ctx =
  call :: "string \<Rightarrow> object \<Rightarrow> error + jsval"
  action_params :: "object option"

text \<open>
  The result of the \<^verbatim>\<open>async\<close> method: \<open>Inl e\<close> when it throws \<open>e\<close>,
  \<open>Inr (Some a)\<close> when it returns the object at address \<open>a\<close>, \<open>Inr None\<close> when
  the body ends without a \<^verbatim>\<open>return\<close> (the promise resolves to \<open>undefined\<close>).
  A missing context (any falsy \<^verbatim>\<open>ctx\<close>) is \<open>None\<close>.
\<close>

definition validateHas ::
  "string \<Rightarrow> string \<Rightarrow> nat \<Rightarrow> ctx option \<Rightarrow> nat \<Rightarrow> world \<Rightarrow> (error + nat option) \<times> world" where
  "validateHas caller key query ctx params w =
     (case ctx of
        None \<Rightarrow> (Inr (Some query), w)
      | Some c \<Rightarrow>
          if truthy (member w params key) then
            (let payload = [(''id'', member w params key)];
                 w1 = w\<lparr>calls := calls w @ [(caller, payload)]\<rparr>
             in case call c caller payload of
                  Inl e \<Rightarrow> (Inl e, w1)
                | Inr res \<Rightarrow>
                    if truthy res then
                      (Inr (Some query), assign query key (member w1 params key) w1)
                    else
                      (Inl (new_MoleculerClientError
                              (''You have no right for the '' @ key @ '' '' @ [CHR 0x27]
                                 @ to_string (member w1 params key) @ [CHR 0x27])
                              403 ''ERR_NO_PERMISSION''
                              (DataObject [(''domain'', member w1 params key)])),
                       w1))
          else
            (case action_params c of
               None \<Rightarrow>
                 (Inl (TypeError (''Cannot read properties of undefined (reading ''
                                    @ [CHR 0x27] @ key @ [CHR 0x27] @ '')'')),
                  w)
             | Some declared \<Rightarrow>
                 if truthy (schema_entry w declared key) then
                   (if \<not> truthy (optional_of w (schema_entry w declared key)) then
                      (Inl (new_MoleculerClientError (key @ '' is required'') 422
                              ''VALIDATION_ERROR''
                              (DataList [[(''type'', JStr ''required''), (''field'', JStr key)]])),
                       w)
                    else (Inr None, w))
                 else (Inr None, w)))"

section \<open>The process environment and the file system\<close>

text \<open>
  \<^verbatim>\<open>process.env\<close> maps a variable to its string, or has no entry for it. The file
  system is the set of directories that exist; \<^verbatim>\<open>mkdir(dir)\<close> adds \<open>dir\<close> to it
  (that the operating system may refuse is not modelled).
\<close>

record host =
  env :: "string \<Rightarrow> string option"
  dirs :: "string set"

definition getenv :: "(string \<Rightarrow> string option) \<Rightarrow> string \<Rightarrow> jsval" where
  "getenv e k = (case e k of None \<Rightarrow> Undefined | Some s \<Rightarrow> JStr s)"

text \<open>
  \<^verbatim>\<open>const TESTING = process.env.NODE_ENV === "test"\<close>, read when the module loads;
  the model reads it from the same environment as the other variables.
\<close>

definition TESTING :: "(string \<Rightarrow> string option) \<Rightarrow> bool" where
  "TESTING e = (e ''NODE_ENV'' = Some ''test'')"

text \<open>\<^verbatim>\<open>a || b\<close>\<close>

definition js_or :: "jsval \<Rightarrow> jsval \<Rightarrow> jsval" where
  "js_or a b = (if truthy a then a else b)"

text \<open>
  Node's \<^verbatim>\<open>path\<close> module is a collaborator: \<open>resolve\<close> makes a path absolute,
  \<open>join\<close> appends a file name to a directory. \<^verbatim>\<open>path.resolve\<close> throws a TypeError
  on an argument that is not a string.
\<close>

record path_module =
  resolve :: "string \<Rightarrow> string"
  join :: "string \<Rightarrow> string \<Rightarrow> string"

fun path_resolve :: "path_module \<Rightarrow> jsval \<Rightarrow> error + string" where
  "path_resolve pm (JStr s) = Inr (resolve pm s)"
| "path_resolve pm v = Inl (TypeError ''The paths[0] argument must be of type string'')"

section \<open>Lodash's defaultsDeep\<close>

text \<open>
  \<^verbatim>\<open>_.defaultsDeep(object, source)\<close> walks the source's properties in order. A
  property the object lacks, or holds as \<open>undefined\<close>, takes the source's value; where
  both values are objects the defaults are merged into the object's value; any other
  value of the object (a string, a number, \<open>null\<close>, ...) stays.
\<close>

fun defaultsDeep :: "jsval \<Rightarrow> jsval \<Rightarrow> jsval"
  and defaults_props :: "object \<Rightarrow> object \<Rightarrow> object" where
  "defaultsDeep (JObj dst) (JObj src) = JObj (defaults_props dst src)"
| "defaultsDeep d s = d"
| "defaults_props dst [] = dst"
| "defaults_props dst ((k, sv) # src) =
     defaults_props
       (case map_of dst k of
          None \<Rightarrow> dst @ [(k, sv)]
        | Some Undefined \<Rightarrow> AList.update k sv dst
        | Some dv \<Rightarrow> AList.update k (defaultsDeep dv sv) dst)
       src"




section \<open>Adapter selection\<close>

text \<open>The two defaults the factory offers for \<^verbatim>\<open>opts.adapter\<close>.\<close>

definition nedb_adapter :: "string \<Rightarrow> jsval" where
  "nedb_adapter filename =
     JObj [(''type'', JStr ''NeDB''),
           (''options'', JObj [(''neDB'', JObj [(''inMemoryOnly'', JBool False),
                                                (''corruptAlertThreshold'', JNum ''0.5''),
                                                (''filename'', JStr filename)])])]"

definition mongodb_adapter :: "jsval \<Rightarrow> jsval \<Rightarrow> jsval" where
  "mongodb_adapter uri collection =
     JObj [(''type'', JStr ''MongoDB''),
           (''options'', JObj [(''uri'', uri), (''collection'', collection)])]"

text \<open>
  \<^verbatim>\<open>src/db.mixin.js\<close>, lines 14 to 16: under test without \<^verbatim>\<open>TOKEN_SALT\<close> the
  factory sets \<^verbatim>\<open>HASHID_SALT\<close> itself. \<open>rnd\<close> is what
  \<^verbatim>\<open>crypto.randomBytes(32).toString("hex")\<close> gives.
\<close>

definition test_salt :: "string \<Rightarrow> host \<Rightarrow> host" where
  "test_salt rnd h =
     (if \<not> truthy (getenv (env h) ''TOKEN_SALT'')
         \<and> (TESTING (env h) \<or> truthy (getenv (env h) ''TEST_E2E''))
      then h\<lparr>env := (env h)(''HASHID_SALT'' \<mapsto> rnd)\<rparr>
      else h)"

text \<open>Line 20: \<^verbatim>\<open>(TESTING && !process.env.TEST_INT) || process.env.ONLY_GENERATE\<close>\<close>

definition unit_test_mode :: "(string \<Rightarrow> string option) \<Rightarrow> bool" where
  "unit_test_mode e =
     ((TESTING e \<and> \<not> truthy (getenv e ''TEST_INT'')) \<or> truthy (getenv e ''ONLY_GENERATE''))"

text \<open>
  \<^verbatim>\<open>src/db.mixin.js\<close>, lines 13 to 51: the factory up to the options it hands to the
  database service. The result is the completed options and the host after
  \<^verbatim>\<open>mkdir\<close> and the assignment to \<^verbatim>\<open>process.env.HASHID_SALT\<close>.
\<close>

definition db_mixin_opts ::
  "path_module \<Rightarrow> string \<Rightarrow> host \<Rightarrow> object \<Rightarrow> error + object \<times> host" where
  "db_mixin_opts pm rnd h opts =
     (let h1 = test_salt rnd h
      in if unit_test_mode (env h1)
         then Inr (defaults_props opts [(''adapter'', JStr ''NeDB'')], h1)
         else if truthy (getenv (env h1) ''NEDB_FOLDER'') \<or> truthy (read opts ''nedb'')
         then (case path_resolve pm (js_or (getenv (env h1) ''NEDB_FOLDER'') (read opts ''nedb'')) of
                 Inl e \<Rightarrow> Inl e
               | Inr dir \<Rightarrow>
                   Inr (defaults_props opts
                          [(''adapter'',
                            nedb_adapter (join pm dir (to_string (read opts ''collection'') @ ''.db'')))],
                        h1\<lparr>dirs := insert dir (dirs h1)\<rparr>))
         else Inr (defaults_props opts
                     [(''adapter'',
                       mongodb_adapter
                         (js_or (getenv (env h1) ''MONGO_URI'') (JStr ''mongodb://localhost/data''))
                         (read opts ''collection''))],
                   h1))"

text \<open>\<^verbatim>\<open>src/unnamed/part_000\<close>, lines 80 to 109: the same step of the other factory.\<close>

definition part_000_opts :: "path_module \<Rightarrow> host \<Rightarrow> object \<Rightarrow> error + object \<times> host" where
  "part_000_opts pm h opts =
     (if truthy (read opts ''nedb'')
      then (case path_resolve pm (read opts ''nedb'') of
              Inl e \<Rightarrow> Inl e
            | Inr dir \<Rightarrow>
                Inr (defaults_props opts
                       [(''adapter'',
                         nedb_adapter (join pm dir (to_string (read opts ''collection'') @ ''.db'')))],
                     h\<lparr>dirs := insert dir (dirs h)\<rparr>))
      else Inr (defaults_props opts
                  [(''adapter'',
                    mongodb_adapter
                      (js_or (getenv (env h) ''MONGO_URI'') (JStr ''mongodb://localhost/data''))
                      (read opts ''collection''))],
                h))"

section \<open>The action table\<close>

text \<open>
  An entry of \<^verbatim>\<open>schema.actions\<close>: \<^verbatim>\<open>false\<close> disables the action, an object
  configures it.
\<close>

datatype action =
    Disabled
  | Action (rest: "string option") (needEntity: bool) (permissions: "string list")

text \<open>\<^verbatim>\<open>src/unnamed/part_000\<close>, lines 116 to 162.\<close>

definition part_000_actions :: "object \<Rightarrow> (string \<times> action) list" where
  "part_000_actions opts =
     [(''create'', Action None False [to_string (read opts ''permissions'') @ ''.create'']),
      (''list'', Action None False [to_string (read opts ''permissions'') @ ''.list'']),
      (''find'', Action (Some ''GET /find'') False [to_string (read opts ''permissions'') @ ''.find'']),
      (''count'', Action (Some ''GET /count'') False [to_string (read opts ''permissions'') @ ''.count'']),
      (''get'', Action None True [to_string (read opts ''permissions'') @ ''.get'']),
      (''update'', Action None True [to_string (read opts ''permissions'') @ ''.update'']),
      (''replace'', Disabled),
      (''remove'', Action None True [to_string (read opts ''permissions'') @ ''.remove''])]"

text \<open>\<^verbatim>\<open>src/db.mixin.js\<close>, lines 92 to 94: the table is empty.\<close>

definition db_mixin_actions :: "object \<Rightarrow> (string \<times> action) list" where
  "db_mixin_actions opts = []"

text \<open>The actions a table turns on, in the table's order.\<close>

definition enabled :: "(string \<times> action) list \<Rightarrow> (string \<times> action) list" where
  "enabled acts = filter (\<lambda>(n, a). a \<noteq> Disabled) acts"

section \<open>The mixin factory\<close>

text \<open>
  \<^verbatim>\<open>module.exports = function (opts = {}) { ...; return schema; }\<close>. Of the schema
  the model keeps the options handed to \<^verbatim>\<open>DbService\<close> and the action table, which is
  built from the completed options; the methods and hooks are the functions of the
  other sections.
\<close>

record schema =
  db_opts :: object
  actions :: "(string \<times> action) list"

definition db_mixin ::
  "path_module \<Rightarrow> string \<Rightarrow> host \<Rightarrow> object \<Rightarrow> error + schema \<times> host" where
  "db_mixin pm rnd h opts =
     (case db_mixin_opts pm rnd h opts of
        Inl e \<Rightarrow> Inl e
      | Inr (opts', h') \<Rightarrow> Inr (\<lparr>db_opts = opts', actions = db_mixin_actions opts'\<rparr>, h'))"

definition part_000 :: "path_module \<Rightarrow> host \<Rightarrow> object \<Rightarrow> error + schema \<times> host" where
  "part_000 pm h opts =
     (case part_000_opts pm h opts of
        Inl e \<Rightarrow> Inl e
      | Inr (opts', h') \<Rightarrow> Inr (\<lparr>db_opts = opts', actions = part_000_actions opts'\<rparr>, h'))"

section \<open>Lifecycle hooks\<close>

text \<open>
  \<^verbatim>\<open>created\<close> (the same in both files). \<^verbatim>\<open>broker.fatal\<close> logs the message and ends
  the process; that outcome is \<open>Inl (Fatal message)\<close>.
\<close>

definition created :: "(string \<Rightarrow> string option) \<Rightarrow> error + unit" where
  "created e =
     (if \<not> truthy (getenv e ''HASHID_SALT'')
      then Inl (Fatal (''Environment variable '' @ [CHR 0x27] @ ''HASHID_SALT'' @ [CHR 0x27]
                         @ '' must be configured!''))
      else Inr ())"

text \<open>
  What \<^verbatim>\<open>started\<close> does to a service is read off a trace of the calls it makes on
  the service. The collection is the list of its entities; \<^verbatim>\<open>countEntities\<close> gives
  its length, \<^verbatim>\<open>clearEntities\<close> empties it, creating indexes leaves it alone.
\<close>

datatype event =
    CreateIndexes
  | LogError string
  | LogInfo string
  | ClearEntities
  | CountEntities
  | SeedDB

record service =
  entities :: "jsval list"
  trace :: "event list"

text \<open>
  The methods a concrete service may define. \<open>createIndexes\<close>: \<open>None\<close> when the
  service has no such function, \<open>Some True\<close> when it resolves, \<open>Some False\<close> when it
  rejects. \<open>seedDB\<close>: \<open>None\<close> when the service defines no seed function, else what
  the function makes of the collection, or the error it rejects with.
\<close>

record methods =
  createIndexes :: "bool option"
  seedDB :: "(jsval list \<Rightarrow> error + jsval list) option"

definition emit :: "event list \<Rightarrow> service \<Rightarrow> service" where
  "emit evs s = s\<lparr>trace := trace s @ evs\<rparr>"

text \<open>The last step of both hooks: log, then \<^verbatim>\<open>await this.seedDB()\<close>.\<close>

definition run_seed ::
  "object \<Rightarrow> (jsval list \<Rightarrow> error + jsval list) \<Rightarrow> service \<Rightarrow> error option \<times> service" where
  "run_seed opts f s =
     (let s1 = emit [LogInfo (''Seed '' @ [CHR 0x27] @ to_string (read opts ''collection'')
                                @ [CHR 0x27] @ '' collection...''), SeedDB] s
      in case f (entities s1) of
           Inl e \<Rightarrow> (Some e, s1)
         | Inr es \<Rightarrow> (None, s1\<lparr>entities := es\<rparr>))"

text \<open>
  \<^verbatim>\<open>src/db.mixin.js\<close>, lines 140 to 163. Calling \<^verbatim>\<open>this.createIndexes\<close> when it is
  not a function throws inside the \<^verbatim>\<open>try\<close>, so it is logged like a rejection.
\<close>

definition db_mixin_started ::
  "(string \<Rightarrow> string option) \<Rightarrow> object \<Rightarrow> methods \<Rightarrow> service \<Rightarrow> error option \<times> service" where
  "db_mixin_started e opts m s =
     (let s1 = (if \<not> TESTING e then
                  (case createIndexes m of
                     Some True \<Rightarrow> emit [CreateIndexes] s
                   | Some False \<Rightarrow> emit [CreateIndexes, LogError ''Unable to create indexes.''] s
                   | None \<Rightarrow> emit [LogError ''Unable to create indexes.''] s)
                else s);
          s2 = (if truthy (getenv e ''TEST_E2E'') \<or> truthy (getenv e ''TEST_INT'') then
                  (emit [LogInfo (''Clear '' @ [CHR 0x27] @ to_string (read opts ''collection'')
                                    @ [CHR 0x27] @ '' collection before tests...''),
                         ClearEntities] s1)\<lparr>entities := []\<rparr>
                else s1);
          s3 = emit [CountEntities] s2;
          count = length (entities s3)
      in if count = 0 \<and> seedDB m \<noteq> None
         then (case seedDB m of Some f \<Rightarrow> run_seed opts f s3 | None \<Rightarrow> (None, s3))
         else (None, s3))"

text \<open>\<^verbatim>\<open>src/unnamed/part_000\<close>, lines 208 to 227.\<close>

definition part_000_started ::
  "object \<Rightarrow> methods \<Rightarrow> service \<Rightarrow> error option \<times> service" where
  "part_000_started opts m s =
     (let s1 = (case createIndexes m of
                  Some True \<Rightarrow> emit [CreateIndexes] s
                | Some False \<Rightarrow> emit [CreateIndexes, LogError ''Unable to create indexes.''] s
                | None \<Rightarrow> s)
      in case seedDB m of
           None \<Rightarrow> (None, s1)
         | Some f \<Rightarrow>
             (let s2 = emit [CountEntities] s1;
                  count = length (entities s2)
              in if count = 0 then run_seed opts f s2 else (None, s2)))"

text \<open>How often a trace invokes the seed function.\<close>

definition seed_runs :: "event list \<Rightarrow> nat" where
  "seed_runs t = length (filter (\<lambda>ev. ev = SeedDB) t)"

section \<open>The id codec\<close>

text \<open>
  The \<^verbatim>\<open>id\<close> handed to \<^verbatim>\<open>encodeID\<close>: the MongoDB driver's native \<^verbatim>\<open>ObjectID\<close>
  (its bytes) or a string.
\<close>

datatype idval =
    NativeId "8 word list"
  | IdStr string

definition hex_digit :: "nat \<Rightarrow> char" where
  "hex_digit n = ''0123456789abcdef'' ! (n mod 16)"

definition lower_hex :: "string \<Rightarrow> bool" where
  "lower_hex s = list_all (\<lambda>c. c \<in> set ''0123456789abcdef'') s"

definition any_hex :: "string \<Rightarrow> bool" where
  "any_hex s = list_all (\<lambda>c. c \<in> set ''0123456789abcdefABCDEF'') s"

text \<open>\<^verbatim>\<open>ObjectID.prototype.toHexString\<close>: two lower-case hexadecimal digits per byte.\<close>

definition toHexString :: "8 word list \<Rightarrow> string" where
  "toHexString bs = concat (map (\<lambda>b. [hex_digit (unat b div 16), hex_digit (unat b)]) bs)"

text \<open>
  \<^verbatim>\<open>ObjectID.isValid(id)\<close> of the driver: an \<^verbatim>\<open>ObjectID\<close> is valid, a string is valid
  when it has 12 characters or is 24 hexadecimal digits. \<^verbatim>\<open>id.toString()\<close> is the
  hexadecimal form of an \<^verbatim>\<open>ObjectID\<close> and the string itself for a string.
\<close>

fun ObjectID_isValid :: "idval \<Rightarrow> bool" where
  "ObjectID_isValid (NativeId bs) = True"
| "ObjectID_isValid (IdStr s) = (length s = 12 \<or> (length s = 24 \<and> any_hex s))"

fun id_toString :: "idval \<Rightarrow> string" where
  "id_toString (NativeId bs) = toHexString bs"
| "id_toString (IdStr s) = s"

text \<open>
  The \<^verbatim>\<open>hashids\<close> instance the factory builds once from \<^verbatim>\<open>process.env.HASHID_SALT\<close>.
  The library is a collaborator of the repository, so its two functions are
  parameters; each may throw.
\<close>

record hashids =
  encodeHex :: "idval \<Rightarrow> error + string"
  decodeHex :: "string \<Rightarrow> error + string"

definition encodeID :: "hashids \<Rightarrow> idval \<Rightarrow> error + string" where
  "encodeID h x = encodeHex h (if ObjectID_isValid x then IdStr (id_toString x) else x)"

definition decodeID :: "hashids \<Rightarrow> string \<Rightarrow> error + string" where
  "decodeID h x = decodeHex h x"

section \<open>Example inputs\<close>

text \<open>
  The chain of an object whose prototype is \<^verbatim>\<open>Object.prototype\<close>, as Node has it:
  the accessor \<^verbatim>\<open>__proto__\<close>, the constructor and ten more functions. It serves worlds
  in which every prototype is \<^verbatim>\<open>Object.prototype\<close>.
\<close>

definition node_lookup :: "jsval \<Rightarrow> string \<Rightarrow> inherited" where
  "node_lookup p k =
     (if p \<noteq> Builtin ''Object.prototype'' then NotFound
      else if k = ''__proto__'' then Accessor
      else if k = ''constructor'' then Data (Builtin ''Object'')
      else if k \<in> set [''hasOwnProperty'', ''isPrototypeOf'', ''propertyIsEnumerable'',
                         ''toLocaleString'', ''toString'', ''valueOf'', ''__defineGetter__'',
                         ''__defineSetter__'', ''__lookupGetter__'', ''__lookupSetter__'']
      then Data (Builtin k)
      else NotFound)"

text \<open>
  A query object at address 1, request parameters naming a board at address 2, empty
  request parameters at address 3, and at address 4 request parameters parsed from
  the JSON text \<^verbatim>\<open>{"__proto__": "b7"}\<close>, which have an own property of that name.
\<close>

definition example_heap :: "nat \<Rightarrow> object" where
  "example_heap a =
     (if a = 1 then [(''archived'', JBool False)]
      else if a = 2 then [(''board'', JStr ''b7'')]
      else if a = 4 then [(''__proto__'', JStr ''b7'')]
      else [])"

definition example_world :: world where
  "example_world =
     \<lparr>heap = example_heap, protos = (\<lambda>a. Builtin ''Object.prototype''),
      lookup = node_lookup, calls = []\<rparr>"

definition board_schema :: object where
  "board_schema = [(''board'', JObj [(''type'', JStr ''string'')])]"


definition denying_ctx :: ctx where
  "denying_ctx =
     \<lparr>call = (\<lambda>action payload. Inr Undefined), action_params = Some board_schema\<rparr>"

text \<open>A context whose action declares the board parameter optional.\<close>

definition optional_ctx :: ctx where
  "optional_ctx =
     \<lparr>call = (\<lambda>action payload. Inr Undefined),
      action_params =
        Some [(''board'', JObj [(''type'', JStr ''string''), (''optional'', JBool True)])]\<rparr>"

text \<open>Factory options, with and without a directory for the file store.\<close>

definition accounts_opts :: object where
  "accounts_opts = [(''collection'', JStr ''accounts''), (''permissions'', JStr ''accounts'')]"



text \<open>
  A path module for a process running in \<^verbatim>\<open>/srv/app\<close>, right on paths without
  \<^verbatim>\<open>.\<close> and \<^verbatim>\<open>..\<close> segments.
\<close>

definition example_path :: path_module where
  "example_path =
     \<lparr>resolve = (\<lambda>p. if take 1 p = ''/'' then p else ''/srv/app/'' @ p),
      join = (\<lambda>d f. d @ ''/'' @ f)\<rparr>"

definition plain_host :: host where
  "plain_host = \<lparr>env = (\<lambda>k. None), dirs = {}\<rparr>"



definition salted_env :: "string \<Rightarrow> string option" where
  "salted_env k = (if k = ''HASHID_SALT'' then Some ''s3cr3t'' else None)"

definition int_test_env :: "string \<Rightarrow> string option" where
  "int_test_env k =
     (if k = ''NODE_ENV'' then Some ''test'' else if k = ''TEST_INT'' then Some ''true'' else None)"

text \<open>A service with one entity and a seed function that adds one.\<close>

definition admin :: jsval where
  "admin = JObj [(''options'', JObj [(''name'', JStr ''admin'')])]"

definition seeded_service :: service where
  "seeded_service = \<lparr>entities = [admin], trace = []\<rparr>"

definition seeding_methods :: methods where
  "seeding_methods = \<lparr>createIndexes = Some True, seedDB = Some (\<lambda>es. Inr (es @ [admin]))\<rparr>"

section \<open>Properties of the permission delegation helper\<close>

lemma new_MoleculerClientError_unbound:
  "new_MoleculerClientError message code type data
     = ReferenceError ''MoleculerClientError is not defined''"
  by (simp add: new_MoleculerClientError_def bound_identifiers_def)

lemma member_calls: "member (w\<lparr>calls := cs\<rparr>) a k = member w a k"
  by (simp add: member_def split: option.splits)



text \<open>
  C2. Called without an execution context, \<^verbatim>\<open>validateHas\<close> returns the query object
  it was given (the same reference), leaves every object of the store as it was and
  makes no lookup call: the list of calls is unchanged.
\<close>

theorem validateHas_no_context:
  "validateHas caller key query None params w = (Inr (Some query), w)"
  by (simp add: validateHas_def)

text \<open>
  Whenever \<^verbatim>\<open>params[key]\<close> is truthy and the lookup resolves to a falsy answer, the
  method throws, and what it throws is the ReferenceError of the unbound constructor
  name, after exactly one lookup.
\<close>

lemma validateHas_denied:
  assumes "truthy (member w params key)"
    and "call c caller [(''id'', member w params key)] = Inr res"
    and "\<not> truthy res"
  shows "validateHas caller key query (Some c) params w
           = (Inl (ReferenceError ''MoleculerClientError is not defined''),
              w\<lparr>calls := calls w @ [(caller, [(''id'', member w params key)])]\<rparr>)"
  using assms
  by (simp add: validateHas_def new_MoleculerClientError_unbound Let_def member_calls)

text \<open>
  C3. The claim: with a context, a present \<^verbatim>\<open>params[key]\<close> and a lookup that returns
  nothing, \<^verbatim>\<open>validateHas\<close> throws a client error with code 403 and type
  \<^verbatim>\<open>ERR_NO_PERMISSION\<close> that carries \<^verbatim>\<open>params[key]\<close>. The code at such an input:
  the query \<^verbatim>\<open>{archived: false}\<close>, the parameters \<^verbatim>\<open>{board: "b7"}\<close> and a lookup
  that resolves to \<open>undefined\<close>. It throws a ReferenceError, which has no code, no
  type and no data.
\<close>

theorem validateHas_denied_ReferenceError:
  "validateHas ''v1.boards.resolve'' ''board'' 1 (Some denying_ctx) 2 example_world
     = (Inl (ReferenceError ''MoleculerClientError is not defined''),
        example_world\<lparr>calls := [(''v1.boards.resolve'', [(''id'', JStr ''b7'')])]\<rparr>)"
  by (simp add: validateHas_def denying_ctx_def example_world_def example_heap_def member_def
      new_MoleculerClientError_unbound)

text \<open>
  A key that names an inherited property is found too: on the empty parameters,
  \<^verbatim>\<open>params["constructor"]\<close> is the function \<^verbatim>\<open>Object\<close>, so the lookup is made.
\<close>

lemma validateHas_inherited_key:
  "snd (validateHas ''v1.boards.resolve'' ''constructor'' 1 (Some denying_ctx) 3 example_world)
     = example_world\<lparr>calls := [(''v1.boards.resolve'', [(''id'', Builtin ''Object'')])]\<rparr>"
  by (simp add: validateHas_def denying_ctx_def example_world_def example_heap_def member_def
      node_lookup_def new_MoleculerClientError_unbound)

text \<open>
  Whenever \<^verbatim>\<open>params[key]\<close> is falsy and the action's schema has no truthy entry for
  the key, or has one whose \<^verbatim>\<open>optional\<close> is truthy, the body ends without a
  \<^verbatim>\<open>return\<close>.
\<close>

lemma validateHas_not_required:
  assumes "\<not> truthy (member w params key)"
    and "action_params c = Some declared"
    and "\<not> truthy (schema_entry w declared key)
         \<or> truthy (optional_of w (schema_entry w declared key))"
  shows "validateHas caller key query (Some c) params w = (Inr None, w)"
  using assms by (auto simp: validateHas_def)

text \<open>
  Whenever \<^verbatim>\<open>params[key]\<close> is falsy and the schema's entry for the key is truthy with
  a falsy \<^verbatim>\<open>optional\<close>, the method throws the same ReferenceError.
\<close>

lemma validateHas_required:
  assumes "\<not> truthy (member w params key)"
    and "action_params c = Some declared"
    and "truthy (schema_entry w declared key)"
    and "\<not> truthy (optional_of w (schema_entry w declared key))"
  shows "validateHas caller key query (Some c) params w
           = (Inl (ReferenceError ''MoleculerClientError is not defined''), w)"
  using assms by (simp add: validateHas_def new_MoleculerClientError_unbound)

text \<open>
  C4. The claim: with a context and an absent \<^verbatim>\<open>params[key]\<close>, a key the schema
  marks as required gives a validation error with code 422 that names the field, and
  any other key gives the query back. The code at two such inputs, both with the
  empty parameters at address 3: under a schema that requires the board it throws the
  ReferenceError of the unbound constructor name, under a schema that makes the board
  optional it returns \<open>undefined\<close>, not the query.
\<close>

theorem validateHas_absent_key:
  "validateHas ''v1.boards.resolve'' ''board'' 1 (Some denying_ctx) 3 example_world
     = (Inl (ReferenceError ''MoleculerClientError is not defined''), example_world)
   \<and> validateHas ''v1.boards.resolve'' ''board'' 1 (Some optional_ctx) 3 example_world
     = (Inr None, example_world)"
  by (simp add: validateHas_def denying_ctx_def optional_ctx_def board_schema_def
      example_world_def example_heap_def member_def node_lookup_def schema_entry_def
      optional_of_def new_MoleculerClientError_unbound)








section \<open>Properties of the adapter selection\<close>

lemma map_of_defaults_other:
  "k \<noteq> k' \<Longrightarrow> map_of (defaults_props opts [(k', v)]) k = map_of opts k"
  by (auto simp: update_conv' map_add_def split: option.splits jsval.splits)




















section \<open>Properties of the action table\<close>

lemma read_defaults_other:
  "k \<noteq> k' \<Longrightarrow> read (defaults_props opts [(k', v)]) k = read opts k"
  by (simp add: read_def map_of_defaults_other del: defaults_props.simps)

lemma part_000_opts_permissions:
  "part_000_opts pm h opts = Inr (opts', h')
     \<Longrightarrow> read opts' ''permissions'' = read opts ''permissions''"
  by (auto simp: part_000_opts_def read_defaults_other simp del: defaults_props.simps
      split: if_splits sum.splits)

lemma part_000_actions_table:
  "map fst (enabled (part_000_actions opts))
     = [''create'', ''list'', ''find'', ''count'', ''get'', ''update'', ''remove'']
   \<and> map (\<lambda>(n, a). (n, permissions a)) (enabled (part_000_actions opts))
     = map (\<lambda>n. (n, [to_string (read opts ''permissions'') @ ''.'' @ n]))
         [''create'', ''list'', ''find'', ''count'', ''get'', ''update'', ''remove'']
   \<and> map_of (part_000_actions opts) ''replace'' = Some Disabled"
  by (simp add: part_000_actions_def enabled_def)

text \<open>
  The schema that the factory of \<^verbatim>\<open>src/db.mixin.js\<close> returns for the options
  \<^verbatim>\<open>{collection: "accounts", permissions: "accounts"}\<close> has an empty action table: it
  turns on none of the seven actions of the claim C7 and does not disable
  \<^verbatim>\<open>replace\<close>.
\<close>

theorem action_table_counterexample:
  "db_mixin example_path ''00ff'' plain_host accounts_opts
     = Inr (\<lparr>db_opts = accounts_opts
                @ [(''adapter'',
                    mongodb_adapter (JStr ''mongodb://localhost/data'') (JStr ''accounts''))],
             actions = []\<rparr>,
            plain_host)
   \<and> map fst (enabled [])
     \<noteq> [''create'', ''list'', ''find'', ''count'', ''get'', ''update'', ''remove'']
   \<and> map_of ([] :: (string \<times> action) list) ''replace'' \<noteq> Some Disabled"
  by (simp add: db_mixin_def db_mixin_opts_def db_mixin_actions_def enabled_def test_salt_def
      unit_test_mode_def TESTING_def getenv_def plain_host_def accounts_opts_def read_def
      js_or_def)

text \<open>
  C7, amended. In every schema the factory of \<^verbatim>\<open>src/unnamed/part_000\<close> returns, the
  action table turns on exactly create, list, find, count, get, update and remove, in
  this order; each carries the single permission tag made of the string form of
  \<^verbatim>\<open>opts.permissions\<close>, a dot and the action's name; and \<^verbatim>\<open>replace\<close> is disabled. In
  every schema the factory of \<^verbatim>\<open>src/db.mixin.js\<close> returns, the action table is empty.
\<close>

theorem action_table:
  "(part_000 pm h opts = Inr (sch, h') \<longrightarrow>
      map fst (enabled (actions sch))
        = [''create'', ''list'', ''find'', ''count'', ''get'', ''update'', ''remove'']
      \<and> map (\<lambda>(n, a). (n, permissions a)) (enabled (actions sch))
        = map (\<lambda>n. (n, [to_string (read opts ''permissions'') @ ''.'' @ n]))
            [''create'', ''list'', ''find'', ''count'', ''get'', ''update'', ''remove'']
      \<and> map_of (actions sch) ''replace'' = Some Disabled)
   \<and> (db_mixin pm rnd h opts = Inr (sch, h') \<longrightarrow> actions sch = [])"
proof (intro conjI impI)
  assume run: "part_000 pm h opts = Inr (sch, h')"
  then obtain opts' where o: "part_000_opts pm h opts = Inr (opts', h')"
    and a: "actions sch = part_000_actions opts'"
    by (auto simp: part_000_def split: sum.splits)
  have p: "read opts' ''permissions'' = read opts ''permissions''"
    using o by (rule part_000_opts_permissions)
  show "map fst (enabled (actions sch))
        = [''create'', ''list'', ''find'', ''count'', ''get'', ''update'', ''remove'']"
    using part_000_actions_table [of opts'] a by simp
  show "map (\<lambda>(n, a). (n, permissions a)) (enabled (actions sch))
        = map (\<lambda>n. (n, [to_string (read opts ''permissions'') @ ''.'' @ n]))
            [''create'', ''list'', ''find'', ''count'', ''get'', ''update'', ''remove'']"
    using part_000_actions_table [of opts'] a p by simp
  show "map_of (actions sch) ''replace'' = Some Disabled"
    using part_000_actions_table [of opts'] a by simp
next
  assume "db_mixin pm rnd h opts = Inr (sch, h')"
  then show "actions sch = []"
    by (auto simp: db_mixin_def db_mixin_actions_def split: sum.splits)
qed

theorem action_table_witness:
  "part_000 example_path plain_host accounts_opts
     = Inr (\<lparr>db_opts = accounts_opts
                @ [(''adapter'',
                    mongodb_adapter (JStr ''mongodb://localhost/data'') (JStr ''accounts''))],
             actions = part_000_actions
                (accounts_opts
                   @ [(''adapter'',
                       mongodb_adapter (JStr ''mongodb://localhost/data'') (JStr ''accounts''))])\<rparr>,
            plain_host)
   \<and> map (\<lambda>(n, a). (n, permissions a))
         (enabled (part_000_actions
                     (accounts_opts
                        @ [(''adapter'',
                            mongodb_adapter (JStr ''mongodb://localhost/data'')
                              (JStr ''accounts''))])))
     = [(''create'', [''accounts.create'']), (''list'', [''accounts.list'']),
        (''find'', [''accounts.find'']), (''count'', [''accounts.count'']),
        (''get'', [''accounts.get'']), (''update'', [''accounts.update'']),
        (''remove'', [''accounts.remove''])]
   \<and> db_mixin example_path ''00ff'' plain_host accounts_opts
     = Inr (\<lparr>db_opts = accounts_opts
                @ [(''adapter'',
                    mongodb_adapter (JStr ''mongodb://localhost/data'') (JStr ''accounts''))],
             actions = []\<rparr>,
            plain_host)"
proof -
  have p: "part_000 example_path plain_host accounts_opts
     = Inr (\<lparr>db_opts = accounts_opts
                @ [(''adapter'',
                    mongodb_adapter (JStr ''mongodb://localhost/data'') (JStr ''accounts''))],
             actions = part_000_actions
                (accounts_opts
                   @ [(''adapter'',
                       mongodb_adapter (JStr ''mongodb://localhost/data'') (JStr ''accounts''))])\<rparr>,
            plain_host)"
    by (simp add: part_000_def part_000_opts_def getenv_def plain_host_def accounts_opts_def
        read_def js_or_def)
  have d: "db_mixin example_path ''00ff'' plain_host accounts_opts
     = Inr (\<lparr>db_opts = accounts_opts
                @ [(''adapter'',
                    mongodb_adapter (JStr ''mongodb://localhost/data'') (JStr ''accounts''))],
             actions = []\<rparr>,
            plain_host)"
    by (simp add: db_mixin_def db_mixin_opts_def db_mixin_actions_def test_salt_def
        unit_test_mode_def TESTING_def getenv_def plain_host_def accounts_opts_def read_def
        js_or_def)
  have r: "read accounts_opts ''permissions'' = JStr ''accounts''"
    by (simp add: read_def accounts_opts_def)
  from action_table [where pm = example_path and h = plain_host and opts = accounts_opts
        and h' = plain_host and rnd = "''00ff''"
        and sch = "\<lparr>db_opts = accounts_opts
                @ [(''adapter'',
                    mongodb_adapter (JStr ''mongodb://localhost/data'') (JStr ''accounts''))],
             actions = part_000_actions
                (accounts_opts
                   @ [(''adapter'',
                       mongodb_adapter (JStr ''mongodb://localhost/data'') (JStr ''accounts''))])\<rparr>"]
    action_table [where pm = example_path and h = plain_host and opts = accounts_opts
        and h' = plain_host and rnd = "''00ff''"
        and sch = "\<lparr>db_opts = accounts_opts
                @ [(''adapter'',
                    mongodb_adapter (JStr ''mongodb://localhost/data'') (JStr ''accounts''))],
             actions = []\<rparr>"]
    p d r
  show ?thesis by simp
qed

section \<open>Properties of the lifecycle hooks\<close>

text \<open>
  In \<^verbatim>\<open>src/db.mixin.js\<close> the factory sets the salt itself under test, so a hook that
  runs after the factory finds one.
\<close>

lemma created_after_test_salt:
  assumes "\<not> truthy (getenv (env h) ''TOKEN_SALT'')"
    and "TESTING (env h) \<or> truthy (getenv (env h) ''TEST_E2E'')"
    and "rnd \<noteq> []"
  shows "created (env (test_salt rnd h)) = Inr ()"
  using assms by (simp add: created_def test_salt_def getenv_def)

text \<open>
  C6. When \<^verbatim>\<open>HASHID_SALT\<close> is unset as \<^verbatim>\<open>created\<close> runs, the hook ends in the fatal
  error; with a salt set (a non-empty value) it does not. An empty value is no salt:
  it ends in the fatal error too.
\<close>

theorem created_requires_salt:
  "(e ''HASHID_SALT'' = None \<longrightarrow>
      created e = Inl (Fatal (''Environment variable '' @ [CHR 0x27] @ ''HASHID_SALT'' @ [CHR 0x27]
                         @ '' must be configured!'')))
   \<and> (e ''HASHID_SALT'' = Some [] \<longrightarrow>
      created e = Inl (Fatal (''Environment variable '' @ [CHR 0x27] @ ''HASHID_SALT'' @ [CHR 0x27]
                         @ '' must be configured!'')))
   \<and> (e ''HASHID_SALT'' = Some salt \<and> salt \<noteq> [] \<longrightarrow> created e = Inr ())"
  by (simp add: created_def getenv_def)

theorem created_requires_salt_witness:
  "created (\<lambda>k. None)
     = Inl (Fatal (''Environment variable '' @ [CHR 0x27] @ ''HASHID_SALT'' @ [CHR 0x27]
                         @ '' must be configured!''))
   \<and> created salted_env = Inr ()"
  using created_requires_salt [of "\<lambda>k. None" "''s3cr3t''"]
    created_requires_salt [of salted_env "''s3cr3t''"]
  by (simp add: salted_env_def)

lemma seed_runs_Nil: "seed_runs [] = 0"
  by (simp add: seed_runs_def)

lemma seed_runs_Cons: "seed_runs (ev # t) = (if ev = SeedDB then 1 else 0) + seed_runs t"
  by (simp add: seed_runs_def)

lemma seed_runs_emit: "seed_runs (trace (emit evs s)) = seed_runs (trace s) + seed_runs evs"
  by (simp add: seed_runs_def emit_def)

lemma entities_emit: "entities (emit evs s) = entities s"
  by (simp add: emit_def)

lemma seed_runs_cleared: "seed_runs (trace (s\<lparr>entities := es\<rparr>)) = seed_runs (trace s)"
  by simp

lemma run_seed_runs: "seed_runs (trace (snd (run_seed opts f s))) = seed_runs (trace s) + 1"
  by (simp add: run_seed_def Let_def seed_runs_emit seed_runs_Cons seed_runs_Nil split: sum.splits)

lemma part_000_started_seed:
  "seed_runs (trace (snd (part_000_started opts m s)))
     = seed_runs (trace s) + (if seedDB m \<noteq> None \<and> entities s = [] then 1 else 0)"
  by (auto simp: part_000_started_def Let_def run_seed_runs seed_runs_emit entities_emit
        seed_runs_Cons seed_runs_Nil split: option.splits bool.splits)

lemma db_mixin_started_seed:
  "seed_runs (trace (snd (db_mixin_started e opts m s)))
     = seed_runs (trace s)
       + (if seedDB m \<noteq> None
             \<and> (entities s = [] \<or> truthy (getenv e ''TEST_E2E'') \<or> truthy (getenv e ''TEST_INT''))
          then 1 else 0)"
  by (auto simp: db_mixin_started_def Let_def run_seed_runs seed_runs_emit entities_emit
        seed_runs_Cons seed_runs_Nil split: option.splits bool.splits)

text \<open>
  A start of \<^verbatim>\<open>src/unnamed/part_000\<close> that leaves the collection non-empty is followed
  by a start that does not seed.
\<close>

lemma part_000_restart:
  assumes "entities (snd (part_000_started opts m s)) \<noteq> []"
  shows "seed_runs (trace (snd (part_000_started opts m (snd (part_000_started opts m s)))))
           = seed_runs (trace (snd (part_000_started opts m s)))"
  using assms part_000_started_seed [of opts m "snd (part_000_started opts m s)"] by simp

text \<open>
  The hook of \<^verbatim>\<open>src/db.mixin.js\<close> under \<^verbatim>\<open>TEST_INT\<close>, started on a collection that
  holds one entity, with a seed function defined: the collection is cleared first, so
  the count is zero and the seed function runs, against the claim C8 that a start on
  a non-empty collection never invokes it.
\<close>

theorem seed_invocations_counterexample:
  "entities seeded_service \<noteq> []
   \<and> seed_runs (trace seeded_service) = 0
   \<and> seed_runs (trace (snd (db_mixin_started int_test_env accounts_opts seeding_methods
                               seeded_service))) = 1"
  by (simp add: db_mixin_started_def seeded_service_def seeding_methods_def int_test_env_def
      TESTING_def getenv_def emit_def run_seed_def seed_runs_def Let_def)

text \<open>
  C8, amended. One start invokes the seed function at most once. In
  \<^verbatim>\<open>src/unnamed/part_000\<close> it is invoked exactly when a seed function is defined and
  the collection is empty at the start, so never on a non-empty collection. In
  \<^verbatim>\<open>src/db.mixin.js\<close> it is invoked exactly when a seed function is defined and the
  collection is empty at the start or \<^verbatim>\<open>TEST_E2E\<close> or \<^verbatim>\<open>TEST_INT\<close> is set: in these
  test modes the collection is cleared before it is counted.
\<close>

theorem seed_invocations:
  "seed_runs (trace (snd (part_000_started opts m s)))
     = seed_runs (trace s) + (if seedDB m \<noteq> None \<and> entities s = [] then 1 else 0)
   \<and> seed_runs (trace (snd (db_mixin_started e opts m s)))
     = seed_runs (trace s)
       + (if seedDB m \<noteq> None
             \<and> (entities s = [] \<or> truthy (getenv e ''TEST_E2E'') \<or> truthy (getenv e ''TEST_INT''))
          then 1 else 0)"
  using part_000_started_seed db_mixin_started_seed by simp

section \<open>Properties of the id codec\<close>

lemma hex_digit_lower: "hex_digit n \<in> set ''0123456789abcdef''"
proof -
  have "n mod 16 < length ''0123456789abcdef''" by simp
  then show ?thesis unfolding hex_digit_def by (rule nth_mem)
qed

lemma lower_hex_toHexString: "lower_hex (toHexString bs)"
  unfolding lower_hex_def toHexString_def
  by (induction bs) (simp_all add: hex_digit_lower del: set_simps list.set)

lemma length_toHexString: "length (toHexString bs) = 2 * length bs"
  unfolding toHexString_def by (induction bs) simp_all

text \<open>
  \<^verbatim>\<open>encodeID\<close> hands the library a string in every case: for a native id its
  hexadecimal form, two lower-case digits per byte, and a string as it is.
\<close>

lemma encodeID_native: "encodeID h (NativeId bs) = encodeHex h (IdStr (toHexString bs))"
  by (simp add: encodeID_def)

lemma encodeID_string: "encodeID h (IdStr s) = encodeHex h (IdStr s)"
  by (simp add: encodeID_def)

text \<open>
  \<^verbatim>\<open>decodeID\<close> adds nothing to the library call, neither a check nor a
  \<^verbatim>\<open>try\<close>: it throws what \<^verbatim>\<open>decodeHex\<close> throws and returns what it returns.
\<close>

lemma decodeID_is_decodeHex: "decodeID h x = decodeHex h x"
  by (simp add: decodeID_def)

end
